theory Spec2Isabelle
  imports Main "HOL-Library.Word"
begin

section \<open>JavaScript strings\<close>

text \<open>
  A JavaScript string is a sequence of 16-bit code units; \<open>.length\<close> counts code units.
  \<open>js\<close> embeds an ASCII literal of the source.
\<close>

type_synonym jsstring = "16 word list"

definition js :: "string \<Rightarrow> jsstring" where
  "js s = map (\<lambda>c. word_of_nat (of_char c)) s"

text \<open>
  \<open>String.prototype.trim\<close> removes leading and trailing WhiteSpace and LineTerminator
  code points (all of them lie in the Basic Multilingual Plane, so one code unit each).
\<close>

definition isWhiteSpace :: "16 word \<Rightarrow> bool" where
  "isWhiteSpace c \<longleftrightarrow>
     c \<in> {0x9, 0xA, 0xB, 0xC, 0xD, 0x20, 0xA0, 0x1680, 0x2028, 0x2029, 0x202F, 0x205F, 0x3000, 0xFEFF}
     \<or> (0x2000 \<le> c \<and> c \<le> 0x200A)"

definition trim :: "jsstring \<Rightarrow> jsstring" where
  "trim s = rev (dropWhile isWhiteSpace (rev (dropWhile isWhiteSpace s)))"

text \<open>A form value or object property: a string, or \<open>undefined\<close> (also an absent property).\<close>

datatype jsvalue = Undefined | Str jsstring

type_synonym jsobject = "string \<Rightarrow> jsvalue"

text \<open>\<open>a || b\<close> on a value of type \<open>string | undefined\<close>: \<open>undefined\<close> and \<open>''\<close> are falsy.\<close>

fun or_else :: "jsvalue \<Rightarrow> jsstring \<Rightarrow> jsstring" where
  "or_else Undefined d = d"
| "or_else (Str s) d = (if s = [] then d else s)"

section \<open>The schema library (zod) as the source uses it\<close>

text \<open>
  The email check of \<open>z.string().email()\<close> tests the library's pattern (zod 3.23)
  \<^verbatim>\<open>/^(?!\.)(?!.*\.\.)([A-Z0-9_'+\-\.]*)[A-Z0-9_+-]@([A-Z0-9][A-Z0-9\-]*\.)+[A-Z]{2,}$/i\<close>
  The pattern is not unicode-aware, so under \<open>/i\<close> only ASCII letters match a letter class.
\<close>

definition isAlpha :: "16 word \<Rightarrow> bool" where
  "isAlpha c \<longleftrightarrow> (0x41 \<le> c \<and> c \<le> 0x5A) \<or> (0x61 \<le> c \<and> c \<le> 0x7A)"

definition isAlnum :: "16 word \<Rightarrow> bool" where
  "isAlnum c \<longleftrightarrow> isAlpha c \<or> (0x30 \<le> c \<and> c \<le> 0x39)"

text \<open>\<open>[A-Z0-9_+-]\<close>, the class of the last character before the \<open>@\<close>.\<close>

definition isLocalLast :: "16 word \<Rightarrow> bool" where
  "isLocalLast c \<longleftrightarrow> isAlnum c \<or> c = 0x5F \<or> c = 0x2B \<or> c = 0x2D"

text \<open>\<open>[A-Z0-9_'+\-\.]\<close>, the class of the characters before it.\<close>

definition isLocal :: "16 word \<Rightarrow> bool" where
  "isLocal c \<longleftrightarrow> isLocalLast c \<or> c = 0x27 \<or> c = 0x2E"

fun split_on :: "'a \<Rightarrow> 'a list \<Rightarrow> 'a list \<Rightarrow> 'a list list" where
  "split_on d acc [] = [rev acc]"
| "split_on d acc (x # xs) =
     (if x = d then rev acc # split_on d [] xs else split_on d (x # acc) xs)"

fun has_dotdot :: "jsstring \<Rightarrow> bool" where
  "has_dotdot (a # b # cs) = ((a = 0x2E \<and> b = 0x2E) \<or> has_dotdot (b # cs))"
| "has_dotdot _ = False"

text \<open>\<open>[A-Z0-9][A-Z0-9\-]*\<close>, one label of the domain (the dot that ends it is the separator).\<close>

definition isLabel :: "jsstring \<Rightarrow> bool" where
  "isLabel p \<longleftrightarrow> (case p of [] \<Rightarrow> False | c # cs \<Rightarrow> isAlnum c \<and> list_all (\<lambda>x. isAlnum x \<or> x = 0x2D) cs)"

definition isLocalPart :: "jsstring \<Rightarrow> bool" where
  "isLocalPart l \<longleftrightarrow>
     (case l of [] \<Rightarrow> False
      | c # cs \<Rightarrow> c \<noteq> 0x2E \<and> list_all isLocal (butlast l) \<and> isLocalLast (last l))"

definition isDomain :: "jsstring \<Rightarrow> bool" where
  "isDomain d \<longleftrightarrow>
     (let ps = split_on 0x2E [] d
      in 2 \<le> length ps \<and> list_all isLabel (butlast ps)
         \<and> 2 \<le> length (last ps) \<and> list_all isAlpha (last ps))"

definition emailRegex :: "jsstring \<Rightarrow> bool" where
  "emailRegex s \<longleftrightarrow>
     (case split_on 0x40 [] s of
        [l, d] \<Rightarrow> \<not> has_dotdot s \<and> isLocalPart l \<and> isDomain d
      | _ \<Rightarrow> False)"

text \<open>
  The checks of a string schema, in the order the source chains them; \<open>trim\<close> is one of
  them and replaces the value the later checks see. Each failing check adds its message
  and parsing goes on.
\<close>

datatype check =
    Trim
  | MinLen nat string
  | MaxLen nat string
  | Email string
  | Url string

text \<open>An issue carries the message given in the schema, or the library's own one.\<close>

datatype message = Custom string | Required | Invalid_literal

text \<open>
  The \<open>url\<close> check calls the platform's \<open>new URL(value)\<close> and fails when that throws.
  The platform's URL parser is the parameter \<open>U\<close> below (\<open>U s\<close>: the parser accepts \<open>s\<close>).
\<close>

fun run_checks :: "(jsstring \<Rightarrow> bool) \<Rightarrow> check list \<Rightarrow> jsstring \<Rightarrow> jsstring \<times> message list" where
  "run_checks U [] s = (s, [])"
| "run_checks U (Trim # cs) s = run_checks U cs (trim s)"
| "run_checks U (MinLen n m # cs) s =
     apsnd ((@) (if length s < n then [Custom m] else [])) (run_checks U cs s)"
| "run_checks U (MaxLen n m # cs) s =
     apsnd ((@) (if length s > n then [Custom m] else [])) (run_checks U cs s)"
| "run_checks U (Email m # cs) s =
     apsnd ((@) (if \<not> emailRegex s then [Custom m] else [])) (run_checks U cs s)"
| "run_checks U (Url m # cs) s =
     apsnd ((@) (if \<not> U s then [Custom m] else [])) (run_checks U cs s)"

datatype ztype =
    ZString "check list"
  | ZOptional ztype
  | ZLiteral jsstring
  | ZOr ztype ztype

datatype status = valid | dirty | aborted

type_synonym parsed = "status \<times> jsvalue \<times> message list"

text \<open>
  A union returns its first valid option; failing that, its first dirty option (one that
  has the right type and failed checks) with that option's issues; failing that, it is
  invalid, and the resolver reports the first issue of the first option.
\<close>

fun parse :: "(jsstring \<Rightarrow> bool) \<Rightarrow> ztype \<Rightarrow> jsvalue \<Rightarrow> parsed" where
  "parse U (ZString cs) Undefined = (aborted, Undefined, [Required])"
| "parse U (ZString cs) (Str s) =
     (case run_checks U cs s of (v, ms) \<Rightarrow> (if ms = [] then valid else dirty, Str v, ms))"
| "parse U (ZOptional t) Undefined = (valid, Undefined, [])"
| "parse U (ZOptional t) (Str s) = parse U t (Str s)"
| "parse U (ZLiteral l) v = (if v = Str l then (valid, v, []) else (aborted, v, [Invalid_literal]))"
| "parse U (ZOr a b) v =
     (let ra = parse U a v; rb = parse U b v
      in if fst ra = valid then ra
         else if fst rb = valid then rb
         else if fst ra = dirty then ra
         else if fst rb = dirty then rb
         else (aborted, v, snd (snd ra) @ snd (snd rb)))"

text \<open>
  \<open>z.object\<close> parses every key of its shape and drops the others; \<open>zodResolver\<close> keeps,
  for each field, the first issue only, and hands the parsed values on when there is none.
\<close>

type_synonym errors = "(string \<times> message) list"

definition field_errors :: "(jsstring \<Rightarrow> bool) \<Rightarrow> (string \<times> ztype) \<Rightarrow> jsobject \<Rightarrow> errors" where
  "field_errors U kt values =
     (case snd (snd (parse U (snd kt) (values (fst kt)))) of
        [] \<Rightarrow> []
      | m # _ \<Rightarrow> [(fst kt, m)])"

definition validate :: "(jsstring \<Rightarrow> bool) \<Rightarrow> (string \<times> ztype) list \<Rightarrow> jsobject \<Rightarrow> errors" where
  "validate U schema values = concat (map (\<lambda>kt. field_errors U kt values) schema)"

definition parsed_values :: "(jsstring \<Rightarrow> bool) \<Rightarrow> (string \<times> ztype) list \<Rightarrow> jsobject \<Rightarrow> jsobject" where
  "parsed_values U schema values k =
     (case map_of schema k of
        None \<Rightarrow> Undefined
      | Some t \<Rightarrow> fst (snd (parse U t (values k))))"

definition zodResolver :: "(jsstring \<Rightarrow> bool) \<Rightarrow> (string \<times> ztype) list \<Rightarrow> jsobject \<Rightarrow> errors + jsobject" where
  "zodResolver U schema values =
     (if validate U schema values = [] then Inr (parsed_values U schema values)
      else Inl (validate U schema values))"

section \<open>Platform and library interfaces of the component\<close>

text \<open>
  \<open>fetch\<close> either resolves with a response (of which the component reads \<open>status\<close> and
  \<open>ok\<close>) or rejects. \<open>response.ok\<close> is true for the statuses 200 to 299.
\<close>

datatype fetch_result = Response nat | Rejected

definition ok :: "nat \<Rightarrow> bool" where
  "ok st \<longleftrightarrow> 200 \<le> st \<and> st \<le> 299"

text \<open>
  What the \<open>catch\<close> block can receive: the error thrown for a response that is not ok,
  \<^verbatim>\<open>new Error(`HTTP error! status: ${response.status}`)\<close>, or the rejection of \<open>fetch\<close>.
\<close>

datatype js_error = HTTP_error nat | Fetch_failed

text \<open>
  The payload is an object literal (keys in the order written); the request body is
  \<open>JSON.stringify(payload)\<close>, kept as that application.
\<close>

type_synonym payload = "(string \<times> jsvalue) list"

datatype json_text = JSON_stringify payload

record request =
  url :: jsstring
  http_method :: string
  headers :: "(string \<times> string) list"
  body :: json_text

record toast =
  title :: string
  description :: string
  variant :: "string option"

text \<open>What the component does to the outside, in the order it does it.\<close>

datatype effect =
    Console_log_url jsstring
  | Console_log_payload payload
  | Fetch request
  | Toast toast
  | Console_error js_error

text \<open>The network calls and the notifications among the effects.\<close>

fun requests :: "effect list \<Rightarrow> request list" where
  "requests [] = []"
| "requests (Fetch r # es) = r # requests es"
| "requests (_ # es) = requests es"

fun toasts :: "effect list \<Rightarrow> toast list" where
  "toasts [] = []"
| "toasts (Toast t # es) = t # toasts es"
| "toasts (_ # es) = toasts es"

text \<open>
  The state of one mounted component: the two \<open>useState\<close> cells, and the values and
  errors that \<open>useForm\<close> holds.
\<close>

record component_state =
  isSubmitting :: bool
  isSubmitted :: bool
  formValues :: jsobject
  formErrors :: errors

text \<open>The props; \<open>None\<close> is a prop that the caller left out, which takes the default.\<close>

record props =
  show_prop :: "bool option"
  submissionUrl_prop :: "jsstring option"

fun default_to :: "'a \<Rightarrow> 'a option \<Rightarrow> 'a" where
  "default_to d None = d"
| "default_to d (Some x) = x"

text \<open>\<open>form.reset()\<close> puts the default values back and clears the errors.\<close>

definition reset :: "jsobject \<Rightarrow> component_state \<Rightarrow> component_state" where
  "reset defaults s = s\<lparr>formValues := defaults, formErrors := []\<rparr>"

text \<open>
  \<open>form.handleSubmit(onSubmit)\<close>: run the resolver on the current values; call
  \<open>onSubmit\<close> with the parsed values when there is no error, otherwise store the errors
  and do not call it.
\<close>

definition handleSubmit ::
  "(jsstring \<Rightarrow> bool) \<Rightarrow> (string \<times> ztype) list
    \<Rightarrow> (component_state \<Rightarrow> jsobject \<Rightarrow> component_state \<times> effect list)
    \<Rightarrow> component_state \<Rightarrow> component_state \<times> effect list" where
  "handleSubmit U schema onValid s =
     (case zodResolver U schema (formValues s) of
        Inr data \<Rightarrow> onValid (s\<lparr>formErrors := []\<rparr>) data
      | Inl errs \<Rightarrow> (s\<lparr>formErrors := errs\<rparr>, []))"

definition placeholderUrl :: jsstring where
  "placeholderUrl = js ''https://jsonplaceholder.typicode.com/posts''"

definition post :: "jsstring \<Rightarrow> payload \<Rightarrow> request" where
  "post u p =
     \<lparr>url = u, http_method = ''POST'',
      headers = [(''Content-Type'', ''application/json'')],
      body = JSON_stringify p\<rparr>"

section \<open>The form with the endpoint field (src/components/landing/ResearchForm.tsx)\<close>

definition researchFormSchema_landing :: "(string \<times> ztype) list" where
  "researchFormSchema_landing =
     [(''name'', ZString [Trim, MinLen 1 ''Name is required'',
                          MaxLen 100 ''Name must be less than 100 characters'']),
      (''phone'', ZString [Trim, MinLen 1 ''Phone number is required'',
                           MaxLen 20 ''Phone number must be less than 20 characters'']),
      (''email'', ZString [Trim, Email ''Invalid email address'',
                           MaxLen 255 ''Email must be less than 255 characters'']),
      (''researchTopic'', ZString [Trim, MinLen 1 ''Research topic is required'',
                                   MaxLen 500 ''Research topic must be less than 500 characters'']),
      (''submissionUrl'', ZOr (ZOptional (ZString [Url ''Please enter a valid URL''])) (ZLiteral []))]"

definition defaultValues_landing :: jsobject where
  "defaultValues_landing =
     (\<lambda>_. Undefined)
       (''name'' := Str [], ''phone'' := Str [], ''email'' := Str [],
        ''researchTopic'' := Str [], ''submissionUrl'' := Str placeholderUrl)"

definition payload_landing :: "jsobject \<Rightarrow> jsstring \<Rightarrow> payload" where
  "payload_landing data now =
     [(''name'', data ''name''), (''phone'', data ''phone''), (''email'', data ''email''),
      (''researchTopic'', data ''researchTopic''), (''timestamp'', Str now)]"

text \<open>
  \<open>onSubmit\<close> up to its \<open>await fetch(...)\<close>. \<open>now\<close> is what
  \<open>new Date().toISOString()\<close> returns when the payload is built.
\<close>

definition onSubmit_landing_send ::
  "jsstring \<Rightarrow> component_state \<Rightarrow> jsobject \<Rightarrow> component_state \<times> effect list" where
  "onSubmit_landing_send now s data =
     (let submissionUrl = or_else (data ''submissionUrl'') placeholderUrl;
          payload = payload_landing data now
      in (s\<lparr>isSubmitting := True\<rparr>,
          [Console_log_url submissionUrl, Console_log_payload payload,
           Fetch (post submissionUrl payload)]))"

text \<open>The rest of the \<open>try\<close> block, once \<open>fetch\<close> has settled; \<open>Inl\<close> is a throw.\<close>

definition onSubmit_landing_try ::
  "component_state \<Rightarrow> fetch_result \<Rightarrow> js_error + component_state \<times> effect list" where
  "onSubmit_landing_try s r =
     (case r of
        Rejected \<Rightarrow> Inl Fetch_failed
      | Response st \<Rightarrow>
          if ok st
          then Inr (reset defaultValues_landing (s\<lparr>isSubmitted := True\<rparr>),
                    [Toast \<lparr>title = ''Success!'',
                            description = ''Your research request has been submitted successfully.'',
                            variant = None\<rparr>])
          else Inl (HTTP_error st))"

definition onSubmit_landing_catch :: "component_state \<Rightarrow> js_error \<Rightarrow> component_state \<times> effect list" where
  "onSubmit_landing_catch s e =
     (s, [Console_error e,
          Toast \<lparr>title = ''Error'',
                 description = ''Failed to submit your research request. Please try again.'',
                 variant = Some ''destructive''\<rparr>])"

text \<open>\<open>try\<close>, \<open>catch\<close> and \<open>finally\<close> after the \<open>await\<close>.\<close>

definition onSubmit_landing_settle :: "component_state \<Rightarrow> fetch_result \<Rightarrow> component_state \<times> effect list" where
  "onSubmit_landing_settle s r =
     (case (case onSubmit_landing_try s r of
              Inr done \<Rightarrow> done
            | Inl e \<Rightarrow> onSubmit_landing_catch s e) of
        (s', es) \<Rightarrow> (s'\<lparr>isSubmitting := False\<rparr>, es))"

text \<open>One whole run of \<open>onSubmit\<close>, with the outcome \<open>r\<close> of its \<open>fetch\<close>.\<close>

definition onSubmit_landing ::
  "jsstring \<Rightarrow> fetch_result \<Rightarrow> component_state \<Rightarrow> jsobject \<Rightarrow> component_state \<times> effect list" where
  "onSubmit_landing now r s data =
     (case onSubmit_landing_send now s data of
        (s1, es1) \<Rightarrow> (case onSubmit_landing_settle s1 r of (s2, es2) \<Rightarrow> (s2, es1 @ es2)))"

section \<open>The form with the endpoint prop (the other copy of ResearchForm)\<close>

definition researchFormSchema_lab :: "(string \<times> ztype) list" where
  "researchFormSchema_lab =
     [(''name'', ZString [Trim, MinLen 1 ''Name is required'',
                          MaxLen 100 ''Name must be less than 100 characters'']),
      (''phone'', ZString [Trim, MinLen 1 ''Phone number is required'',
                           MaxLen 20 ''Phone number must be less than 20 characters'']),
      (''email'', ZString [Trim, Email ''Invalid email address'',
                           MaxLen 255 ''Email must be less than 255 characters'']),
      (''researchTopic'', ZString [Trim, MinLen 1 ''Research area is required'',
                                   MaxLen 500 ''Research area must be less than 500 characters''])]"

definition defaultValues_lab :: jsobject where
  "defaultValues_lab =
     (\<lambda>_. Undefined)
       (''name'' := Str [], ''phone'' := Str [], ''email'' := Str [],
        ''researchTopic'' := Str [])"

definition payload_lab :: "jsobject \<Rightarrow> jsstring \<Rightarrow> payload" where
  "payload_lab data now =
     [(''name'', data ''name''), (''contact'', data ''phone''), (''email'', data ''email''),
      (''researchTopic'', data ''researchTopic''), (''timestamp'', Str now)]"

definition onSubmit_lab_send ::
  "props \<Rightarrow> jsstring \<Rightarrow> component_state \<Rightarrow> jsobject \<Rightarrow> component_state \<times> effect list" where
  "onSubmit_lab_send p now s data =
     (let submissionUrl = default_to placeholderUrl (submissionUrl_prop p);
          payload = payload_lab data now
      in (s\<lparr>isSubmitting := True\<rparr>,
          [Console_log_url submissionUrl, Console_log_payload payload,
           Fetch (post submissionUrl payload)]))"

definition onSubmit_lab_try ::
  "component_state \<Rightarrow> fetch_result \<Rightarrow> js_error + component_state \<times> effect list" where
  "onSubmit_lab_try s r =
     (case r of
        Rejected \<Rightarrow> Inl Fetch_failed
      | Response st \<Rightarrow>
          if ok st
          then Inr (reset defaultValues_lab (s\<lparr>isSubmitted := True\<rparr>),
                    [Toast \<lparr>title = ''Welcome to AgenticX Lab!'',
                            description = ''You're now part of the revolution. Check your email for next steps.'',
                            variant = None\<rparr>])
          else Inl (HTTP_error st))"

definition onSubmit_lab_catch :: "component_state \<Rightarrow> js_error \<Rightarrow> component_state \<times> effect list" where
  "onSubmit_lab_catch s e =
     (s, [Console_error e,
          Toast \<lparr>title = ''Error'',
                 description = ''Failed to join AgenticX Lab. Please try again.'',
                 variant = Some ''destructive''\<rparr>])"

definition onSubmit_lab_settle :: "component_state \<Rightarrow> fetch_result \<Rightarrow> component_state \<times> effect list" where
  "onSubmit_lab_settle s r =
     (case (case onSubmit_lab_try s r of
              Inr done \<Rightarrow> done
            | Inl e \<Rightarrow> onSubmit_lab_catch s e) of
        (s', es) \<Rightarrow> (s'\<lparr>isSubmitting := False\<rparr>, es))"

definition onSubmit_lab ::
  "props \<Rightarrow> jsstring \<Rightarrow> fetch_result \<Rightarrow> component_state \<Rightarrow> jsobject \<Rightarrow> component_state \<times> effect list" where
  "onSubmit_lab p now r s data =
     (case onSubmit_lab_send p now s data of
        (s1, es1) \<Rightarrow> (case onSubmit_lab_settle s1 r of (s2, es2) \<Rightarrow> (s2, es1 @ es2)))"

section \<open>Rendering and the submit handler\<close>



text \<open>The \<open>onSubmit\<close> handler of the \<open>form\<close> element, \<open>form.handleSubmit(onSubmit)\<close>.\<close>

definition submit_landing :: "(jsstring \<Rightarrow> bool) \<Rightarrow> jsstring \<Rightarrow> component_state \<Rightarrow> component_state \<times> effect list" where
  "submit_landing U now s = handleSubmit U researchFormSchema_landing (onSubmit_landing_send now) s"

definition submit_lab :: "(jsstring \<Rightarrow> bool) \<Rightarrow> props \<Rightarrow> jsstring \<Rightarrow> component_state \<Rightarrow> component_state \<times> effect list" where
  "submit_lab U p now s = handleSubmit U researchFormSchema_lab (onSubmit_lab_send p now) s"

text \<open>The two copies of the component, and the parts in which they differ.\<close>

datatype variant = Landing | Lab

fun submit_of :: "(jsstring \<Rightarrow> bool) \<Rightarrow> variant \<Rightarrow> props \<Rightarrow> jsstring \<Rightarrow> component_state \<Rightarrow> component_state \<times> effect list" where
  "submit_of U Landing p now s = submit_landing U now s"
| "submit_of U Lab p now s = submit_lab U p now s"

fun settle_of :: "variant \<Rightarrow> component_state \<Rightarrow> fetch_result \<Rightarrow> component_state \<times> effect list" where
  "settle_of Landing s r = onSubmit_landing_settle s r"
| "settle_of Lab s r = onSubmit_lab_settle s r"

fun schema_of :: "variant \<Rightarrow> (string \<times> ztype) list" where
  "schema_of Landing = researchFormSchema_landing"
| "schema_of Lab = researchFormSchema_lab"

section \<open>The vocabulary of the specification\<close>

text \<open>
  The specification's SubmissionState, read off the two state cells in the order
  \<open>render\<close> tests them. A failure is not stored: it is the destructive toast.
\<close>

datatype SubmissionState = Idle | Submitting | Succeeded

definition submissionState :: "component_state \<Rightarrow> SubmissionState" where
  "submissionState s =
     (if isSubmitted s then Succeeded else if isSubmitting s then Submitting else Idle)"

text \<open>
  The specification's field rules, with the bounds of the schema. A required field is
  non-empty after trimming and within its length bound; the email field also matches the
  email format; the endpoint field, the only one the form labels optional, is left out,
  empty, or accepted by the URL check.
\<close>

definition spec_required_ok :: "nat \<Rightarrow> jsvalue \<Rightarrow> bool" where
  "spec_required_ok hi v =
     (case v of Undefined \<Rightarrow> False | Str x \<Rightarrow> 1 \<le> length (trim x) \<and> length (trim x) \<le> hi)"

definition spec_email_ok :: "jsvalue \<Rightarrow> bool" where
  "spec_email_ok v =
     (case v of Undefined \<Rightarrow> False | Str x \<Rightarrow> emailRegex (trim x) \<and> length (trim x) \<le> 255)"

definition spec_url_ok :: "(jsstring \<Rightarrow> bool) \<Rightarrow> jsvalue \<Rightarrow> bool" where
  "spec_url_ok U v = (case v of Undefined \<Rightarrow> True | Str x \<Rightarrow> x = [] \<or> U x)"

definition spec_field_ok :: "(jsstring \<Rightarrow> bool) \<Rightarrow> string \<Rightarrow> jsvalue \<Rightarrow> bool" where
  "spec_field_ok U k v =
     (if k = ''name'' then spec_required_ok 100 v
      else if k = ''phone'' then spec_required_ok 20 v
      else if k = ''email'' then spec_email_ok v
      else if k = ''researchTopic'' then spec_required_ok 500 v
      else if k = ''submissionUrl'' then spec_url_ok U v
      else True)"

text \<open>A field is missing when it is left out or empty after trimming.\<close>

definition spec_missing :: "jsvalue \<Rightarrow> bool" where
  "spec_missing v = (case v of Undefined \<Rightarrow> True | Str x \<Rightarrow> trim x = [])"

definition required_fields :: "string list" where
  "required_fields = [''name'', ''phone'', ''email'', ''researchTopic'']"

text \<open>The values of the specification's scenarios A to C, and a clock reading.\<close>

definition scenario_values :: jsobject where
  "scenario_values =
     (\<lambda>_. Undefined)
       (''name'' := Str (js ''Jane Doe''), ''phone'' := Str (js ''555-1234''),
        ''email'' := Str (js ''jane@x.edu''), ''researchTopic'' := Str (js ''AI ethics''))"

definition scenario_state :: component_state where
  "scenario_state =
     \<lparr>isSubmitting = False, isSubmitted = False, formValues = scenario_values, formErrors = []\<rparr>"

definition scenario_now :: jsstring where
  "scenario_now = js ''2025-01-01T00:00:00.000Z''"

definition scenario_props :: props where
  "scenario_props = \<lparr>show_prop = None, submissionUrl_prop = None\<rparr>"

text \<open>A URL parser that accepts nothing, for the scenarios, which never consult it.\<close>

definition rejecting :: "jsstring \<Rightarrow> bool" where
  "rejecting u = False"

section \<open>Lemmas on trimming and on the checks of each field\<close>

lemma dropWhile_prefix_of_dropWhile:
  assumes "dropWhile P s = t @ r"
  shows "dropWhile P t = t"
proof (cases t)
  case Nil
  then show ?thesis by simp
next
  case (Cons c cs)
  with assms have "dropWhile P s \<noteq> []" and "hd (dropWhile P s) = c" by simp_all
  then have "\<not> P c" using hd_dropWhile [of P s] by auto
  with Cons show ?thesis by simp
qed

lemma trim_trim: "trim (trim s) = trim s"
proof -
  let ?a = "dropWhile isWhiteSpace s"
  let ?d = "dropWhile isWhiteSpace (rev ?a)"
  have "?a = rev ?d @ rev (takeWhile isWhiteSpace (rev ?a))"
    by (metis rev_append rev_rev_ident takeWhile_dropWhile_id)
  then have front: "dropWhile isWhiteSpace (rev ?d) = rev ?d"
    by (rule dropWhile_prefix_of_dropWhile)
  have rear: "dropWhile isWhiteSpace ?d = ?d" by (rule dropWhile_idem)
  show ?thesis
    unfolding trim_def by (simp only: front rev_rev_ident rear)
qed

lemma emailRegex_Nil: "\<not> emailRegex []"
  by (simp add: emailRegex_def)

lemma issues_required:
  "snd (snd (parse U (ZString [Trim, MinLen (Suc 0) a, MaxLen n b]) v)) = [] \<longleftrightarrow> spec_required_ok n v"
  by (cases v) (auto simp: spec_required_ok_def Suc_le_eq)

lemma issues_email:
  "snd (snd (parse U (ZString [Trim, Email a, MaxLen 255 b]) v)) = [] \<longleftrightarrow> spec_email_ok v"
  by (cases v) (auto simp: spec_email_ok_def)

lemma issues_url:
  "snd (snd (parse U (ZOr (ZOptional (ZString [Url a])) (ZLiteral [])) v)) = [] \<longleftrightarrow> spec_url_ok U v"
  by (cases v) (auto simp: spec_url_ok_def Let_def)

lemma parsed_url:
  "v = Undefined \<or> v = Str [] \<Longrightarrow>
   fst (snd (parse U (ZOr (ZOptional (ZString [Url a])) (ZLiteral [])) v)) = v"
  by (auto simp: Let_def)

lemma field_errors_fst:
  "map fst (field_errors U (k, t) values) =
     (if snd (snd (parse U t (values k))) = [] then [] else [k])"
  by (simp add: field_errors_def split: list.splits)

text \<open>The fields with an entry are those that break the rule the specification gives them.\<close>

lemma validate_landing_keys:
  "map fst (validate U researchFormSchema_landing values) =
     filter (\<lambda>k. \<not> spec_field_ok U k (values k)) (map fst researchFormSchema_landing)"
  unfolding validate_def researchFormSchema_landing_def
  by (simp only: list.map concat.simps map_append map_concat field_errors_fst fst_conv snd_conv
        issues_required issues_email issues_url One_nat_def)
     (simp add: spec_field_ok_def)

lemma validate_lab_keys:
  "map fst (validate U researchFormSchema_lab values) =
     filter (\<lambda>k. \<not> spec_field_ok U k (values k)) (map fst researchFormSchema_lab)"
  unfolding validate_def researchFormSchema_lab_def
  by (simp only: list.map concat.simps map_append map_concat field_errors_fst fst_conv snd_conv
        issues_required issues_email issues_url One_nat_def)
     (simp add: spec_field_ok_def)

lemma missing_not_ok:
  "k \<in> set required_fields \<Longrightarrow> spec_missing v \<Longrightarrow> \<not> spec_field_ok U k v"
  by (cases v)
     (auto simp: required_fields_def spec_missing_def spec_field_ok_def spec_required_ok_def
        spec_email_ok_def emailRegex_Nil)

lemma validate_upd_trim_landing:
  "k \<in> set required_fields \<Longrightarrow>
   validate U researchFormSchema_landing (values(k := Str x)) =
   validate U researchFormSchema_landing (values(k := Str (trim x)))"
  by (auto simp: required_fields_def validate_def researchFormSchema_landing_def
        field_errors_def trim_trim)

lemma validate_upd_trim_lab:
  "k \<in> set required_fields \<Longrightarrow>
   validate U researchFormSchema_lab (values(k := Str x)) =
   validate U researchFormSchema_lab (values(k := Str (trim x)))"
  by (auto simp: required_fields_def validate_def researchFormSchema_lab_def
        field_errors_def trim_trim)

lemma email_entry_landing:
  "values ''email'' = Str x \<Longrightarrow> trim x = [] \<Longrightarrow>
   (''email'', Custom ''Invalid email address'') \<in> set (validate U researchFormSchema_landing values)"
  by (simp add: validate_def researchFormSchema_landing_def field_errors_def emailRegex_Nil)

lemma email_entry_lab:
  "values ''email'' = Str x \<Longrightarrow> trim x = [] \<Longrightarrow>
   (''email'', Custom ''Invalid email address'') \<in> set (validate U researchFormSchema_lab values)"
  by (simp add: validate_def researchFormSchema_lab_def field_errors_def emailRegex_Nil)

lemma url_entry_landing:
  "''submissionUrl'' \<in> fst ` set (validate U researchFormSchema_landing values)
     \<longleftrightarrow> \<not> spec_url_ok U (values ''submissionUrl'')"
proof -
  have "''submissionUrl'' \<in> set (map fst (validate U researchFormSchema_landing values))
     \<longleftrightarrow> \<not> spec_url_ok U (values ''submissionUrl'')"
    unfolding validate_landing_keys
    by (simp add: researchFormSchema_landing_def spec_field_ok_def)
  then show ?thesis by simp
qed

section \<open>Lemmas on submitting\<close>

lemmas onSubmit_defs =
  onSubmit_landing_def onSubmit_landing_send_def onSubmit_landing_settle_def
  onSubmit_landing_try_def onSubmit_landing_catch_def
  onSubmit_lab_def onSubmit_lab_send_def onSubmit_lab_settle_def
  onSubmit_lab_try_def onSubmit_lab_catch_def reset_def

lemma submit_landing_valid:
  "validate U researchFormSchema_landing (formValues s) = [] \<Longrightarrow>
   submit_landing U now s =
     onSubmit_landing_send now (s\<lparr>formErrors := []\<rparr>)
       (parsed_values U researchFormSchema_landing (formValues s))"
  by (simp add: submit_landing_def handleSubmit_def zodResolver_def)

lemma submit_lab_valid:
  "validate U researchFormSchema_lab (formValues s) = [] \<Longrightarrow>
   submit_lab U p now s =
     onSubmit_lab_send p now (s\<lparr>formErrors := []\<rparr>)
       (parsed_values U researchFormSchema_lab (formValues s))"
  by (simp add: submit_lab_def handleSubmit_def zodResolver_def)

lemma requests_landing_send:
  "requests (snd (onSubmit_landing_send now s data)) =
     [post (or_else (data ''submissionUrl'') placeholderUrl) (payload_landing data now)]"
  by (simp add: onSubmit_landing_send_def Let_def)

lemma requests_lab_send:
  "requests (snd (onSubmit_lab_send p now s data)) =
     [post (default_to placeholderUrl (submissionUrl_prop p)) (payload_lab data now)]"
  by (simp add: onSubmit_lab_send_def Let_def)

lemma settle_of_clears: "\<not> isSubmitting (fst (settle_of c s r))"
  by (cases c; cases r) (simp_all add: onSubmit_defs Let_def)


section \<open>The scenarios, evaluated\<close>

lemma scenario_fields_ok:
  "spec_field_ok U ''name'' (scenario_values ''name'')"
  "spec_field_ok U ''phone'' (scenario_values ''phone'')"
  "spec_field_ok U ''email'' (scenario_values ''email'')"
  "spec_field_ok U ''researchTopic'' (scenario_values ''researchTopic'')"
  "spec_field_ok U ''submissionUrl'' (scenario_values ''submissionUrl'')"
  by (simp_all add: spec_field_ok_def spec_required_ok_def spec_email_ok_def spec_url_ok_def
        scenario_values_def js_def trim_def isWhiteSpace_def emailRegex_def isLocalPart_def
        isDomain_def isLabel_def isAlpha_def isAlnum_def isLocal_def isLocalLast_def)

lemma scenario_valid_landing: "validate U researchFormSchema_landing scenario_values = []"
proof -
  have "map fst (validate U researchFormSchema_landing scenario_values) = []"
    unfolding validate_landing_keys
    by (simp add: researchFormSchema_landing_def scenario_fields_ok)
  then show ?thesis by simp
qed

lemma scenario_valid_lab: "validate U researchFormSchema_lab scenario_values = []"
proof -
  have "map fst (validate U researchFormSchema_lab scenario_values) = []"
    unfolding validate_lab_keys
    by (simp add: researchFormSchema_lab_def scenario_fields_ok)
  then show ?thesis by simp
qed

lemma placeholderUrl_not_empty: "placeholderUrl \<noteq> []"
  by (simp add: placeholderUrl_def js_def)

lemma scenario_C_errors:
  "validate U researchFormSchema_lab (scenario_values(''name'' := Str [])) = [(''name'', Custom ''Name is required'')]"
  by (simp add: validate_def researchFormSchema_lab_def field_errors_def
        scenario_values_def js_def trim_def isWhiteSpace_def emailRegex_def isLocalPart_def
        isDomain_def isLabel_def isAlpha_def isAlnum_def isLocal_def isLocalLast_def)

lemma trim_spaces: "trim (js ''   '') = []"
  by (simp add: js_def trim_def isWhiteSpace_def)

lemma scenario_valid_landing_empty_url:
  "validate U researchFormSchema_landing (scenario_values(''submissionUrl'' := Str [])) = []"
proof -
  have "map fst (validate U researchFormSchema_landing (scenario_values(''submissionUrl'' := Str []))) = []"
    unfolding validate_landing_keys
    using scenario_fields_ok [of U]
    by (simp add: researchFormSchema_landing_def spec_field_ok_def spec_url_ok_def)
  then show ?thesis by simp
qed

section \<open>The outcome of a submission\<close>

text \<open>
  C1 (as amended). When the response has a status from 200 to 299, one run of
  \<open>onSubmit\<close> shows exactly one notification, which is not the destructive one, leaves
  the state Succeeded, and resets the form values to their defaults: the empty string for
  name, phone, email and researchTopic in both forms, and, in the form with the endpoint
  field, the placeholder URL for submissionUrl.
\<close>

theorem success_resets_to_defaults:
  assumes "200 \<le> st" and "st < 300"
  shows "map title (toasts (snd (onSubmit_landing now (Response st) s data))) = [''Success!'']
       \<and> map variant (toasts (snd (onSubmit_landing now (Response st) s data))) = [None]
       \<and> submissionState (fst (onSubmit_landing now (Response st) s data)) = Succeeded
       \<and> \<not> isSubmitting (fst (onSubmit_landing now (Response st) s data))
       \<and> formValues (fst (onSubmit_landing now (Response st) s data)) = defaultValues_landing
       \<and> map title (toasts (snd (onSubmit_lab p now (Response st) s data))) = [''Welcome to AgenticX Lab!'']
       \<and> map variant (toasts (snd (onSubmit_lab p now (Response st) s data))) = [None]
       \<and> submissionState (fst (onSubmit_lab p now (Response st) s data)) = Succeeded
       \<and> \<not> isSubmitting (fst (onSubmit_lab p now (Response st) s data))
       \<and> formValues (fst (onSubmit_lab p now (Response st) s data)) = defaultValues_lab
       \<and> map defaultValues_landing required_fields = [Str [], Str [], Str [], Str []]
       \<and> map defaultValues_lab required_fields = [Str [], Str [], Str [], Str []]
       \<and> defaultValues_landing ''submissionUrl'' = Str placeholderUrl"
  using assms
  by (simp add: onSubmit_defs ok_def Let_def submissionState_def defaultValues_landing_def
        defaultValues_lab_def required_fields_def)

text \<open>
  C1, scenario A with status 201.
\<close>

theorem success_resets_to_defaults_witness:
  "(200::nat) \<le> 201 \<and> (201::nat) < 300
   \<and> map title (toasts (snd (onSubmit_lab scenario_props scenario_now (Response 201) scenario_state scenario_values)))
       = [''Welcome to AgenticX Lab!'']
   \<and> submissionState (fst (onSubmit_lab scenario_props scenario_now (Response 201) scenario_state scenario_values)) = Succeeded
   \<and> formValues (fst (onSubmit_lab scenario_props scenario_now (Response 201) scenario_state scenario_values)) = defaultValues_lab
   \<and> formValues (fst (onSubmit_landing scenario_now (Response 201) scenario_state scenario_values)) = defaultValues_landing
   \<and> map defaultValues_lab required_fields = [Str [], Str [], Str [], Str []]"
  using success_resets_to_defaults [of 201 scenario_now scenario_state scenario_values scenario_props]
  by simp

text \<open>
  C1 as first stated (all values reset to the empty string) fails for the form with the
  endpoint field: after scenario A with status 201 its submissionUrl holds the placeholder
  URL, which is not empty.
\<close>

theorem success_refills_endpoint_field:
  "submissionState (fst (onSubmit_landing scenario_now (Response 201) scenario_state scenario_values))
     = Succeeded
   \<and> formValues (fst (onSubmit_landing scenario_now (Response 201) scenario_state scenario_values))
       ''submissionUrl'' = Str placeholderUrl
   \<and> Str placeholderUrl \<noteq> Str []"
  by (simp add: onSubmit_defs ok_def Let_def submissionState_def defaultValues_landing_def
        placeholderUrl_not_empty)

text \<open>
  C2. When the response has a status outside 200 to 299, or \<open>fetch\<close> rejects, one run
  of \<open>onSubmit\<close> shows exactly one notification, the destructive one, leaves every form
  value as it was, and leaves the state Idle. A submission starts from the displayed form,
  which is rendered only while \<open>isSubmitted\<close> is false.
\<close>

theorem failure_keeps_values:
  assumes "r = Rejected \<or> (\<exists>st. r = Response st \<and> (st < 200 \<or> 300 \<le> st))"
    and "\<not> isSubmitted s"
  shows "map title (toasts (snd (onSubmit_landing now r s data))) = [''Error'']
       \<and> map variant (toasts (snd (onSubmit_landing now r s data))) = [Some ''destructive'']
       \<and> formValues (fst (onSubmit_landing now r s data)) = formValues s
       \<and> submissionState (fst (onSubmit_landing now r s data)) = Idle
       \<and> map title (toasts (snd (onSubmit_lab p now r s data))) = [''Error'']
       \<and> map variant (toasts (snd (onSubmit_lab p now r s data))) = [Some ''destructive'']
       \<and> formValues (fst (onSubmit_lab p now r s data)) = formValues s
       \<and> submissionState (fst (onSubmit_lab p now r s data)) = Idle"
  using assms
  by (auto simp: onSubmit_defs ok_def Let_def submissionState_def)

text \<open>
  C2, scenario B (status 500) for the form with the endpoint field, and a rejected
  \<open>fetch\<close> for the other form.
\<close>

theorem failure_keeps_values_witness:
  "isSubmitted scenario_state = False
   \<and> map variant (toasts (snd (onSubmit_landing scenario_now (Response 500) scenario_state scenario_values))) = [Some ''destructive'']
   \<and> formValues (fst (onSubmit_landing scenario_now (Response 500) scenario_state scenario_values)) = scenario_values
   \<and> submissionState (fst (onSubmit_landing scenario_now (Response 500) scenario_state scenario_values)) = Idle
   \<and> formValues (fst (onSubmit_lab scenario_props scenario_now Rejected scenario_state scenario_values)) = scenario_values
   \<and> submissionState (fst (onSubmit_lab scenario_props scenario_now Rejected scenario_state scenario_values)) = Idle"
  using failure_keeps_values [of "Response 500" scenario_state scenario_now scenario_values scenario_props]
    failure_keeps_values [of Rejected scenario_state scenario_now scenario_values scenario_props]
  by (simp add: scenario_state_def)

text \<open>
  C10. After \<open>fetch\<close> has settled, whatever the response or the rejection,
  \<open>isSubmitting\<close> is false: the state is never left Submitting.
\<close>

theorem submitting_flag_cleared:
  "\<not> isSubmitting (fst (settle_of c s r))
   \<and> \<not> isSubmitting (fst (onSubmit_landing now r s data))
   \<and> \<not> isSubmitting (fst (onSubmit_lab p now r s data))
   \<and> submissionState (fst (onSubmit_landing now r s data)) \<noteq> Submitting
   \<and> submissionState (fst (onSubmit_lab p now r s data)) \<noteq> Submitting"
  by (cases c; cases r) (simp_all add: onSubmit_defs Let_def submissionState_def)

text \<open>
  C10, at a response with status 500, at a rejection and at a response with status 201.
\<close>

theorem submitting_flag_cleared_witness:
  "isSubmitting (fst (onSubmit_landing scenario_now (Response 500) scenario_state scenario_values)) = False
   \<and> isSubmitting (fst (onSubmit_lab scenario_props scenario_now Rejected scenario_state scenario_values)) = False
   \<and> isSubmitting (fst (settle_of Lab (scenario_state\<lparr>isSubmitting := True\<rparr>) (Response 201))) = False"
  using submitting_flag_cleared [of Lab "scenario_state\<lparr>isSubmitting := True\<rparr>" "Response 201"]
    submitting_flag_cleared [of Lab scenario_state "Response 500" scenario_now scenario_values scenario_props]
    submitting_flag_cleared [of Lab scenario_state Rejected scenario_now scenario_values scenario_props]
  by simp

section \<open>Validation\<close>

text \<open>
  C4. When every field of the schema meets the specification's rule for it (required
  fields non-empty after trimming and within their bound, the email matching the email
  format, the endpoint field left out, empty or accepted by the URL check),
  \<open>validate\<close> returns no entry.
\<close>

theorem validate_accepts_valid:
  assumes "S \<in> {researchFormSchema_landing, researchFormSchema_lab}"
    and "\<forall>k \<in> set (map fst S). spec_field_ok U k (values k)"
  shows "validate U S values = []"
proof -
  have "map fst (validate U S values) = filter (\<lambda>k. \<not> spec_field_ok U k (values k)) (map fst S)"
    using assms(1) by (auto simp: validate_landing_keys validate_lab_keys)
  also have "\<dots> = []"
    using assms(2) by (simp add: filter_empty_conv)
  finally show ?thesis by simp
qed

text \<open>
  C4, at the values of scenario A.
\<close>

theorem validate_accepts_valid_witness:
  "spec_field_ok rejecting ''name'' (scenario_values ''name'')
   \<and> spec_field_ok rejecting ''phone'' (scenario_values ''phone'')
   \<and> spec_field_ok rejecting ''email'' (scenario_values ''email'')
   \<and> spec_field_ok rejecting ''researchTopic'' (scenario_values ''researchTopic'')
   \<and> spec_field_ok rejecting ''submissionUrl'' (scenario_values ''submissionUrl'')
   \<and> validate rejecting researchFormSchema_landing scenario_values = []"
  using validate_accepts_valid [of researchFormSchema_landing rejecting scenario_values]
  by (simp add: scenario_fields_ok researchFormSchema_landing_def)

text \<open>
  C5. When one required field is missing (left out, or empty after trimming) and
  every other field of the schema meets its rule, \<open>validate\<close> returns an entry for that
  field and for no other.
\<close>

theorem validate_reports_missing_field:
  assumes S: "S \<in> {researchFormSchema_landing, researchFormSchema_lab}"
    and k: "k \<in> set required_fields"
    and missing: "spec_missing (values k)"
    and others: "\<forall>k' \<in> set (map fst S) - {k}. spec_field_ok U k' (values k')"
  shows "map fst (validate U S values) = [k]"
proof -
  have keys: "map fst (validate U S values) = filter (\<lambda>k. \<not> spec_field_ok U k (values k)) (map fst S)"
    using S by (auto simp: validate_landing_keys validate_lab_keys)
  have bad: "\<not> spec_field_ok U k (values k)"
    using k missing by (rule missing_not_ok)
  have "filter (\<lambda>k. \<not> spec_field_ok U k (values k)) (map fst S) = filter (\<lambda>k'. k' = k) (map fst S)"
    using others bad by (intro filter_cong refl) auto
  also have "\<dots> = [k]"
    using S k by (auto simp: researchFormSchema_landing_def researchFormSchema_lab_def required_fields_def)
  finally show ?thesis using keys by simp
qed

text \<open>
  C5, at the values of scenario A with a name of two spaces.
\<close>

theorem validate_reports_missing_field_witness:
  "spec_missing ((scenario_values(''name'' := Str (js ''  ''))) ''name'')
   \<and> spec_field_ok rejecting ''phone'' ((scenario_values(''name'' := Str (js ''  ''))) ''phone'')
   \<and> spec_field_ok rejecting ''email'' ((scenario_values(''name'' := Str (js ''  ''))) ''email'')
   \<and> spec_field_ok rejecting ''researchTopic'' ((scenario_values(''name'' := Str (js ''  ''))) ''researchTopic'')
   \<and> spec_field_ok rejecting ''submissionUrl'' ((scenario_values(''name'' := Str (js ''  ''))) ''submissionUrl'')
   \<and> map fst (validate rejecting researchFormSchema_landing (scenario_values(''name'' := Str (js ''  '')))) = [''name'']"
proof -
  have m: "spec_missing ((scenario_values(''name'' := Str (js ''  ''))) ''name'')"
    by (simp add: spec_missing_def js_def trim_def isWhiteSpace_def)
  have o: "spec_field_ok rejecting ''phone'' ((scenario_values(''name'' := Str (js ''  ''))) ''phone'')"
    "spec_field_ok rejecting ''email'' ((scenario_values(''name'' := Str (js ''  ''))) ''email'')"
    "spec_field_ok rejecting ''researchTopic'' ((scenario_values(''name'' := Str (js ''  ''))) ''researchTopic'')"
    "spec_field_ok rejecting ''submissionUrl'' ((scenario_values(''name'' := Str (js ''  ''))) ''submissionUrl'')"
    using scenario_fields_ok [of rejecting] by simp_all
  from m o validate_reports_missing_field
      [of researchFormSchema_landing "''name''" "scenario_values(''name'' := Str (js ''  ''))" rejecting]
  show ?thesis
    by (simp add: researchFormSchema_landing_def required_fields_def)
qed

text \<open>
  C7 (as amended). For name, phone, email and researchTopic, \<open>validate\<close> trims the
  value before every check, so a value and its trimmed form validate alike. The email
  format check is applied to the trimmed value also when that is empty: an empty or
  whitespace-only email is reported as an invalid email address. The endpoint field is not
  trimmed: it has an entry exactly when its value is a non-empty string that the URL
  check, given the value as typed, rejects.
\<close>

theorem validate_trims_then_checks:
  assumes "S \<in> {researchFormSchema_landing, researchFormSchema_lab}"
  shows "(k \<in> set required_fields \<longrightarrow>
            validate U S (values(k := Str x)) = validate U S (values(k := Str (trim x))))
       \<and> (values ''email'' = Str e \<and> trim e = [] \<longrightarrow>
            (''email'', Custom ''Invalid email address'') \<in> set (validate U S values))
       \<and> (''submissionUrl'' \<in> fst ` set (validate U researchFormSchema_landing values)
            \<longleftrightarrow> (\<exists>u. values ''submissionUrl'' = Str u \<and> u \<noteq> [] \<and> \<not> U u))"
proof -
  have 1: "k \<in> set required_fields \<longrightarrow>
            validate U S (values(k := Str x)) = validate U S (values(k := Str (trim x)))"
    using assms validate_upd_trim_landing validate_upd_trim_lab by blast
  have 2: "values ''email'' = Str e \<and> trim e = [] \<longrightarrow>
            (''email'', Custom ''Invalid email address'') \<in> set (validate U S values)"
    using assms email_entry_landing email_entry_lab by blast
  have "spec_url_ok U (values ''submissionUrl'')
          \<longleftrightarrow> \<not> (\<exists>u. values ''submissionUrl'' = Str u \<and> u \<noteq> [] \<and> \<not> U u)"
    by (cases "values ''submissionUrl''") (auto simp: spec_url_ok_def)
  then have 3: "''submissionUrl'' \<in> fst ` set (validate U researchFormSchema_landing values)
            \<longleftrightarrow> (\<exists>u. values ''submissionUrl'' = Str u \<and> u \<noteq> [] \<and> \<not> U u)"
    unfolding url_entry_landing by simp
  from 1 2 3 show ?thesis by blast
qed

text \<open>
  C7, at a name with spaces around it and at an email of three spaces.
\<close>

theorem validate_trims_then_checks_witness:
  "''name'' \<in> set required_fields
   \<and> validate rejecting researchFormSchema_lab (scenario_values(''name'' := Str (js '' Jane Doe '')))
      = validate rejecting researchFormSchema_lab (scenario_values(''name'' := Str (trim (js '' Jane Doe ''))))
   \<and> (scenario_values(''email'' := Str (js ''   ''))) ''email'' = Str (js ''   '') \<and> trim (js ''   '') = []
   \<and> (''email'', Custom ''Invalid email address'')
        \<in> set (validate rejecting researchFormSchema_lab (scenario_values(''email'' := Str (js ''   ''))))"
  using validate_trims_then_checks [of researchFormSchema_lab "''name''" rejecting scenario_values "js '' Jane Doe ''"]
    validate_trims_then_checks [of researchFormSchema_lab "''name''" rejecting "scenario_values(''email'' := Str (js ''   ''))"
       "[]" "js ''   ''"]
  by (simp add: required_fields_def trim_spaces)

text \<open>
  C7 as first stated (format checks fire only on a non-empty trimmed value) fails: an
  email of three spaces is empty after trimming, and the email format check reports it.
\<close>

theorem email_check_fires_on_empty:
  "trim (js ''   '') = []
   \<and> validate rejecting researchFormSchema_lab (scenario_values(''email'' := Str (js ''   '')))
       = [(''email'', Custom ''Invalid email address'')]"
  by (simp add: trim_spaces validate_def researchFormSchema_lab_def field_errors_def
        scenario_values_def js_def trim_def isWhiteSpace_def emailRegex_def)

section \<open>Submitting the form\<close>

text \<open>
  C3. When \<open>validate\<close> returns an entry for the current values, the submit handler
  stores the entries as the form's errors, changes nothing else, and has no effect on the
  outside: \<open>onSubmit\<close> is not called and no request is issued.
\<close>

theorem invalid_values_not_sent:
  assumes "validate U (schema_of c) (formValues s) \<noteq> []"
  shows "submit_of U c p now s = (s\<lparr>formErrors := validate U (schema_of c) (formValues s)\<rparr>, [])"
  using assms
  by (cases c) (simp_all add: submit_landing_def submit_lab_def handleSubmit_def zodResolver_def)

text \<open>
  C3, scenario C: the values of scenario A with an empty name.
\<close>

theorem invalid_values_not_sent_witness:
  "validate rejecting (schema_of Lab) (formValues (scenario_state\<lparr>formValues := scenario_values(''name'' := Str [])\<rparr>))
     = [(''name'', Custom ''Name is required'')]
   \<and> requests (snd (submit_of rejecting Lab scenario_props scenario_now
         (scenario_state\<lparr>formValues := scenario_values(''name'' := Str [])\<rparr>))) = []
   \<and> formErrors (fst (submit_of rejecting Lab scenario_props scenario_now
         (scenario_state\<lparr>formValues := scenario_values(''name'' := Str [])\<rparr>))) = [(''name'', Custom ''Name is required'')]"
  using invalid_values_not_sent [of rejecting Lab "scenario_state\<lparr>formValues := scenario_values(''name'' := Str [])\<rparr>" scenario_props scenario_now]
  by (simp add: scenario_C_errors)




text \<open>
  C8 (as amended). After a validation without entries, the submit handler issues
  exactly one request, a POST with JSON content type whose body is the payload
  serialised. The payload's keys are the schema's field names other than submissionUrl,
  in the schema's order, with phone renamed to contact in the form with the endpoint
  prop, followed by timestamp, which holds the string that \<open>new Date().toISOString()\<close>
  returned when the payload was built.
\<close>

theorem post_body_keys:
  assumes "validate U (schema_of c) (formValues s) = []"
  shows "(c = Landing \<longrightarrow>
           requests (snd (submit_of U c p now s)) =
             [post (or_else (parsed_values U researchFormSchema_landing (formValues s) ''submissionUrl'') placeholderUrl)
                (payload_landing (parsed_values U researchFormSchema_landing (formValues s)) now)])
       \<and> (c = Lab \<longrightarrow>
           requests (snd (submit_of U c p now s)) =
             [post (default_to placeholderUrl (submissionUrl_prop p))
                (payload_lab (parsed_values U researchFormSchema_lab (formValues s)) now)])
       \<and> map fst (payload_landing d now) =
           filter (\<lambda>k. k \<noteq> ''submissionUrl'') (map fst researchFormSchema_landing) @ [''timestamp'']
       \<and> map fst (payload_lab d now) =
           map (\<lambda>k. if k = ''phone'' then ''contact'' else k) (map fst researchFormSchema_lab) @ [''timestamp'']
       \<and> map_of (payload_landing d now) ''timestamp'' = Some (Str now)
       \<and> map_of (payload_lab d now) ''timestamp'' = Some (Str now)"
proof -
  have landing: "c = Landing \<longrightarrow>
           requests (snd (submit_of U c p now s)) =
             [post (or_else (parsed_values U researchFormSchema_landing (formValues s) ''submissionUrl'') placeholderUrl)
                (payload_landing (parsed_values U researchFormSchema_landing (formValues s)) now)]"
    using assms by (auto simp: submit_landing_valid requests_landing_send)
  have lab: "c = Lab \<longrightarrow>
           requests (snd (submit_of U c p now s)) =
             [post (default_to placeholderUrl (submissionUrl_prop p))
                (payload_lab (parsed_values U researchFormSchema_lab (formValues s)) now)]"
    using assms by (auto simp: submit_lab_valid requests_lab_send)
  have keys: "map fst (payload_landing d now) =
           filter (\<lambda>k. k \<noteq> ''submissionUrl'') (map fst researchFormSchema_landing) @ [''timestamp'']"
     "map fst (payload_lab d now) =
           map (\<lambda>k. if k = ''phone'' then ''contact'' else k) (map fst researchFormSchema_lab) @ [''timestamp'']"
     "map_of (payload_landing d now) ''timestamp'' = Some (Str now)"
     "map_of (payload_lab d now) ''timestamp'' = Some (Str now)"
    by (simp_all add: payload_landing_def payload_lab_def
        researchFormSchema_landing_def researchFormSchema_lab_def)
  from landing lab keys show ?thesis by blast
qed

text \<open>
  C8, at the values of scenario A.
\<close>

theorem post_body_keys_witness:
  "validate rejecting (schema_of Lab) (formValues scenario_state) = []
   \<and> requests (snd (submit_of rejecting Lab scenario_props scenario_now scenario_state)) =
       [post placeholderUrl
          (payload_lab (parsed_values rejecting researchFormSchema_lab (formValues scenario_state)) scenario_now)]
   \<and> map fst (payload_lab scenario_values scenario_now) =
       [''name'', ''contact'', ''email'', ''researchTopic'', ''timestamp'']
   \<and> map fst (payload_landing scenario_values scenario_now) =
       [''name'', ''phone'', ''email'', ''researchTopic'', ''timestamp'']
   \<and> map_of (payload_lab scenario_values scenario_now) ''timestamp'' = Some (Str scenario_now)"
proof -
  have v: "validate rejecting (schema_of Lab) (formValues scenario_state) = []"
    by (simp add: scenario_state_def scenario_valid_lab)
  from v post_body_keys [of rejecting Lab scenario_state scenario_props scenario_now scenario_values]
  show ?thesis
    by (simp add: scenario_props_def researchFormSchema_landing_def researchFormSchema_lab_def)
qed

text \<open>
  C8 as first stated (the keys mirror the schema's field names) fails for the form with
  the endpoint field: submissionUrl is a field of its schema and not a key of the body.
\<close>

theorem body_omits_endpoint_field:
  "requests (snd (onSubmit_landing_send scenario_now scenario_state scenario_values)) =
     [post placeholderUrl (payload_landing scenario_values scenario_now)]
   \<and> ''submissionUrl'' \<in> set (map fst researchFormSchema_landing)
   \<and> ''submissionUrl'' \<notin> set (map fst (payload_landing scenario_values scenario_now))"
  by (simp add: requests_landing_send scenario_values_def payload_landing_def researchFormSchema_landing_def)

text \<open>
  C9. In the form with the endpoint field, when the values validate and submissionUrl
  is left out or empty, the submit handler issues exactly one request, a POST to the
  placeholder URL.
\<close>

theorem empty_endpoint_defaults_to_placeholder:
  assumes "validate U researchFormSchema_landing (formValues s) = []"
    and "formValues s ''submissionUrl'' = Undefined \<or> formValues s ''submissionUrl'' = Str []"
  shows "map url (requests (snd (submit_landing U now s))) = [placeholderUrl]
       \<and> map http_method (requests (snd (submit_landing U now s))) = [''POST'']"
proof -
  have "parsed_values U researchFormSchema_landing (formValues s) ''submissionUrl'' =
          formValues s ''submissionUrl''"
    using assms(2)
    by (simp add: parsed_values_def researchFormSchema_landing_def parsed_url del: parse.simps)
  then have "or_else (parsed_values U researchFormSchema_landing (formValues s) ''submissionUrl'') placeholderUrl
               = placeholderUrl"
    using assms(2) by auto
  then show ?thesis
    using assms(1) by (simp add: submit_landing_valid requests_landing_send post_def)
qed

text \<open>
  C9, at the values of scenario A with an empty submissionUrl.
\<close>

theorem empty_endpoint_defaults_to_placeholder_witness:
  "validate rejecting researchFormSchema_landing
      (formValues (scenario_state\<lparr>formValues := scenario_values(''submissionUrl'' := Str [])\<rparr>)) = []
   \<and> formValues (scenario_state\<lparr>formValues := scenario_values(''submissionUrl'' := Str [])\<rparr>) ''submissionUrl'' = Str []
   \<and> map url (requests (snd (submit_landing rejecting scenario_now
        (scenario_state\<lparr>formValues := scenario_values(''submissionUrl'' := Str [])\<rparr>)))) = [placeholderUrl]"
  using empty_endpoint_defaults_to_placeholder
    [of rejecting "scenario_state\<lparr>formValues := scenario_values(''submissionUrl'' := Str [])\<rparr>" scenario_now]
  by (simp add: scenario_valid_landing_empty_url)

end
